theory Spec2Isabelle
  imports Main "HOL-Library.Word"
begin

unbundle bit_operations_syntax

section \<open>pg\_plan\_watch: the data of the module\<close>

text \<open>
  The module is one C file, \<^verbatim>\<open>pg_plan_watch.c\<close>: twelve configuration variables
  (GUCs), a nesting counter, four saved hook pointers and four hook functions that wrap the
  executor's start, run, finish and end phases. The embedding keeps the names of the C
  file. A C \<^verbatim>\<open>int\<close> is a \<open>32 word\<close> (the server is built with wrapping signed
  arithmetic), compared as a signed number where the C code compares it.

  An \<^verbatim>\<open>ereport(ERROR, ...)\<close> raised inside a called function leaves the calling
  function at once (a \<^verbatim>\<open>longjmp\<close> to the closest enclosing \<^verbatim>\<open>PG_TRY\<close>). A
  function that can raise therefore returns a sum, \<open>Inl\<close> holding the error. Memory
  contexts (\<^verbatim>\<open>MemoryContextSwitchTo\<close>) decide where memory is freed, not what is
  computed, and are left out.
\<close>

datatype error =
    ERROR string      \<comment> \<open>an error raised with \<^verbatim>\<open>ereport(ERROR, ...)\<close>\<close>
  | OUT_OF_BOUNDS     \<comment> \<open>a write outside the buffer: undefined behaviour in C\<close>

datatype ExplainFormat =
  EXPLAIN_FORMAT_TEXT | EXPLAIN_FORMAT_XML | EXPLAIN_FORMAT_JSON | EXPLAIN_FORMAT_YAML

text \<open>The severities of \<^verbatim>\<open>loglevel_options\<close>; all of them are below \<^verbatim>\<open>ERROR\<close>.\<close>

datatype elevel = DEBUG5 | DEBUG4 | DEBUG3 | DEBUG2 | DEBUG1 | INFO | NOTICE | WARNING | LOG

datatype ScanDirection = BackwardScanDirection | NoMovementScanDirection | ForwardScanDirection

text \<open>The GUC variables (lines 28 to 39). A hook call reads them; it never writes them.\<close>

record gucs =
  pg_plan_watch_log_min_duration :: "32 word"           \<comment> \<open>msec or -1\<close>
  pg_plan_watch_log_parameter_max_length :: "32 word"   \<comment> \<open>bytes or -1\<close>
  pg_plan_watch_log_analyze :: bool
  pg_plan_watch_log_verbose :: bool
  pg_plan_watch_log_buffers :: bool
  pg_plan_watch_log_wal :: bool
  pg_plan_watch_log_triggers :: bool
  pg_plan_watch_log_timing :: bool
  pg_plan_watch_log_settings :: bool
  pg_plan_watch_log_format :: ExplainFormat
  pg_plan_watch_log_level :: elevel
  pg_plan_watch_log_nested_statements :: bool

text \<open>
  The fields of the server's \<^verbatim>\<open>QueryDesc\<close> that the module or the explain library
  reads. \<open>'i\<close> is the server's \<^verbatim>\<open>Instrumentation\<close> struct, \<open>'p\<close> its
  \<^verbatim>\<open>ParamListInfo\<close>, \<open>'q\<close> its \<^verbatim>\<open>PlannedStmt\<close>; a null pointer is \<open>None\<close>.
\<close>

record ('i, 'p, 'q) QueryDesc =
  sourceText :: string
  plannedstmt :: 'q
  params :: 'p
  instrument_options :: "32 word"
  totaltime :: "'i option"

text \<open>
  The option fields of the server's \<^verbatim>\<open>ExplainState\<close> that the module sets or reads,
  and the contents of its output buffer \<^verbatim>\<open>es->str\<close> (\<^verbatim>\<open>len\<close> is the length of
  the list; the terminating NUL byte that follows the contents is not part of it).
\<close>

record ExplainState =
  str :: string
  analyze :: bool
  verbose :: bool
  buffers :: bool
  wal :: bool
  timing :: bool
  summary :: bool
  format :: ExplainFormat
  settings :: bool
  costs :: bool

text \<open>One message handed to the server's log sink by \<^verbatim>\<open>ereport\<close>.\<close>

record ErrorData =
  elevel :: elevel
  message :: string
  hide_stmt :: bool

text \<open>
  The state of the backend process that a hook call can change: the module's nesting
  counter (line 64), the messages sent to the sink so far, and the rest of the server's
  state, \<open>'e\<close>, which only the server's own handlers interpret.
\<close>

record 'e backend =
  nesting_level :: "32 word"
  server_log :: "ErrorData list"
  engine :: 'e

text \<open>
  A handler of an executor phase works on the \<^verbatim>\<open>QueryDesc\<close> it is given and on the
  backend; it returns or raises.
\<close>

type_synonym ('r, 'i, 'p, 'q, 'e) outcome =
  "(error + 'r) \<times> ('i, 'p, 'q) QueryDesc \<times> 'e backend"

type_synonym ('i, 'p, 'q, 'e) ExecutorStart_hook_type =
  "('i, 'p, 'q) QueryDesc \<Rightarrow> 32 word \<Rightarrow> 'e backend \<Rightarrow> (bool, 'i, 'p, 'q, 'e) outcome"

type_synonym ('i, 'p, 'q, 'e) ExecutorRun_hook_type =
  "('i, 'p, 'q) QueryDesc \<Rightarrow> ScanDirection \<Rightarrow> 64 word \<Rightarrow> 'e backend
     \<Rightarrow> (unit, 'i, 'p, 'q, 'e) outcome"

type_synonym ('i, 'p, 'q, 'e) ExecutorFinish_hook_type =
  "('i, 'p, 'q) QueryDesc \<Rightarrow> 'e backend \<Rightarrow> (unit, 'i, 'p, 'q, 'e) outcome"

type_synonym ('i, 'p, 'q, 'e) ExecutorEnd_hook_type =
  "('i, 'p, 'q) QueryDesc \<Rightarrow> 'e backend \<Rightarrow> (unit, 'i, 'p, 'q, 'e) outcome"

text \<open>
  What the module is linked against. None of it is in the C file, so all of it is a
  parameter:
  \<^item> the constants of the server's headers (\<^verbatim>\<open>executor.h\<close>, \<^verbatim>\<open>instrument.h\<close>);
  \<^item> the hook values saved by \<^verbatim>\<open>_PG_init\<close> (lines 71 to 74; \<open>None\<close> is
    \<^verbatim>\<open>NULL\<close>) and the server's standard handlers;
  \<^item> \<^verbatim>\<open>InstrAlloc\<close> and \<^verbatim>\<open>InstrEndLoop\<close>;
  \<^item> the explain library. Each of its functions reads the options of the
    \<^verbatim>\<open>ExplainState\<close> and writes its output buffer: the parameter gives the new
    contents of the buffer, or the error raised;
  \<^item> \<open>msec_thousandths\<close>, the double \<^verbatim>\<open>totaltime->total * 1000.0\<close> as the
    conversion \<^verbatim>\<open>%.3f\<close> rounds it: whether it is negative, and its magnitude as a
    whole number of thousandths. The multiplication and the rounding are floating-point
    arithmetic; the double is finite.
\<close>

record ('i, 'p, 'q, 'e) env =
  EXEC_FLAG_EXPLAIN_ONLY :: "32 word"
  INSTRUMENT_TIMER :: "32 word"
  INSTRUMENT_BUFFERS :: "32 word"
  INSTRUMENT_ROWS :: "32 word"
  INSTRUMENT_WAL :: "32 word"
  INSTRUMENT_ALL :: "32 word"
  prev_ExecutorStart :: "('i, 'p, 'q, 'e) ExecutorStart_hook_type option"
  prev_ExecutorRun :: "('i, 'p, 'q, 'e) ExecutorRun_hook_type option"
  prev_ExecutorFinish :: "('i, 'p, 'q, 'e) ExecutorFinish_hook_type option"
  prev_ExecutorEnd :: "('i, 'p, 'q, 'e) ExecutorEnd_hook_type option"
  standard_ExecutorStart :: "('i, 'p, 'q, 'e) ExecutorStart_hook_type"
  standard_ExecutorRun :: "('i, 'p, 'q, 'e) ExecutorRun_hook_type"
  standard_ExecutorFinish :: "('i, 'p, 'q, 'e) ExecutorFinish_hook_type"
  standard_ExecutorEnd :: "('i, 'p, 'q, 'e) ExecutorEnd_hook_type"
  InstrAlloc :: "nat \<Rightarrow> 32 word \<Rightarrow> bool \<Rightarrow> 'i"
  InstrEndLoop :: "'i \<Rightarrow> error + 'i"
  NewExplainState :: ExplainState
  ExplainBeginOutput :: "ExplainState \<Rightarrow> error + string"
  ExplainQueryText :: "ExplainState \<Rightarrow> ('i, 'p, 'q) QueryDesc \<Rightarrow> error + string"
  ExplainQueryParameters :: "ExplainState \<Rightarrow> 'p \<Rightarrow> 32 word \<Rightarrow> error + string"
  ExplainPrintPlan :: "ExplainState \<Rightarrow> ('i, 'p, 'q) QueryDesc \<Rightarrow> error + string"
  ExplainPrintTriggers :: "ExplainState \<Rightarrow> ('i, 'p, 'q) QueryDesc \<Rightarrow> error + string"
  ExplainPrintJITSummary :: "ExplainState \<Rightarrow> ('i, 'p, 'q) QueryDesc \<Rightarrow> error + string"
  ExplainEndOutput :: "ExplainState \<Rightarrow> error + string"
  msec_thousandths :: "'i \<Rightarrow> bool \<times> nat"

section \<open>The enabling condition and the delegates\<close>

text \<open>The macro \<^verbatim>\<open>pg_plan_watch_enabled()\<close>, lines 66 to 68.\<close>

definition pg_plan_watch_enabled :: "gucs \<Rightarrow> 'e backend \<Rightarrow> bool" where
  "pg_plan_watch_enabled g s \<longleftrightarrow>
     0 \<le>s pg_plan_watch_log_min_duration g \<and>
     (nesting_level s = 0 \<or> pg_plan_watch_log_nested_statements g)"

text \<open>
  \<^verbatim>\<open>if (prev_X) prev_X(...); else standard_X(...);\<close> at the four places it is written
  (lines 264, 303, 324, 409).
\<close>

definition ExecutorStart_delegate ::
  "('i, 'p, 'q, 'e) env \<Rightarrow> ('i, 'p, 'q, 'e) ExecutorStart_hook_type" where
  "ExecutorStart_delegate pg =
     (case prev_ExecutorStart pg of Some h \<Rightarrow> h | None \<Rightarrow> standard_ExecutorStart pg)"

definition ExecutorRun_delegate ::
  "('i, 'p, 'q, 'e) env \<Rightarrow> ('i, 'p, 'q, 'e) ExecutorRun_hook_type" where
  "ExecutorRun_delegate pg =
     (case prev_ExecutorRun pg of Some h \<Rightarrow> h | None \<Rightarrow> standard_ExecutorRun pg)"

definition ExecutorFinish_delegate ::
  "('i, 'p, 'q, 'e) env \<Rightarrow> ('i, 'p, 'q, 'e) ExecutorFinish_hook_type" where
  "ExecutorFinish_delegate pg =
     (case prev_ExecutorFinish pg of Some h \<Rightarrow> h | None \<Rightarrow> standard_ExecutorFinish pg)"

definition ExecutorEnd_delegate ::
  "('i, 'p, 'q, 'e) env \<Rightarrow> ('i, 'p, 'q, 'e) ExecutorEnd_hook_type" where
  "ExecutorEnd_delegate pg =
     (case prev_ExecutorEnd pg of Some h \<Rightarrow> h | None \<Rightarrow> standard_ExecutorEnd pg)"

section \<open>\<^verbatim>\<open>explain_ExecutorStart\<close>\<close>

text \<open>
  Lines 248 to 262: the instrumentation requested on the \<^verbatim>\<open>QueryDesc\<close> before the
  delegate runs.
\<close>

definition request_instrumentation ::
  "('i, 'p, 'q, 'e) env \<Rightarrow> gucs \<Rightarrow> 'e backend \<Rightarrow> 32 word
     \<Rightarrow> ('i, 'p, 'q) QueryDesc \<Rightarrow> ('i, 'p, 'q) QueryDesc" where
  "request_instrumentation pg g s eflags queryDesc =
     (if pg_plan_watch_enabled g s then
        (if pg_plan_watch_log_analyze g \<and> eflags AND EXEC_FLAG_EXPLAIN_ONLY pg = 0 then
           let qd1 = (if pg_plan_watch_log_timing g
                      then queryDesc\<lparr>instrument_options :=
                             instrument_options queryDesc OR INSTRUMENT_TIMER pg\<rparr>
                      else queryDesc\<lparr>instrument_options :=
                             instrument_options queryDesc OR INSTRUMENT_ROWS pg\<rparr>);
               qd2 = (if pg_plan_watch_log_buffers g
                      then qd1\<lparr>instrument_options :=
                             instrument_options qd1 OR INSTRUMENT_BUFFERS pg\<rparr>
                      else qd1);
               qd3 = (if pg_plan_watch_log_wal g
                      then qd2\<lparr>instrument_options :=
                             instrument_options qd2 OR INSTRUMENT_WAL pg\<rparr>
                      else qd2)
           in qd3
         else queryDesc)
      else queryDesc)"

text \<open>Lines 273 to 288: the accumulator of the whole execution, set up after the delegate.\<close>

definition track_totaltime ::
  "('i, 'p, 'q, 'e) env \<Rightarrow> gucs \<Rightarrow> 'e backend
     \<Rightarrow> ('i, 'p, 'q) QueryDesc \<Rightarrow> ('i, 'p, 'q) QueryDesc" where
  "track_totaltime pg g s queryDesc =
     (if pg_plan_watch_enabled g s then
        (if totaltime queryDesc = None
         then queryDesc\<lparr>totaltime := Some (InstrAlloc pg 1 (INSTRUMENT_ALL pg) False)\<rparr>
         else queryDesc)
      else queryDesc)"

text \<open>
  Lines 243 to 291. The macro is expanded twice, and each expansion reads the backend as
  it is at that moment. An error raised by the delegate leaves the function before line 270.
\<close>

definition explain_ExecutorStart ::
  "('i, 'p, 'q, 'e) env \<Rightarrow> gucs \<Rightarrow> ('i, 'p, 'q, 'e) ExecutorStart_hook_type" where
  "explain_ExecutorStart pg g queryDesc eflags s =
     (case ExecutorStart_delegate pg (request_instrumentation pg g s eflags queryDesc) eflags s of
        (Inl e, qd', s') \<Rightarrow> (Inl e, qd', s')
      | (Inr plan_valid, qd', s') \<Rightarrow>
          if \<not> plan_valid then (Inr False, qd', s')
          else (Inr True, track_totaltime pg g s' qd', s'))"

section \<open>\<^verbatim>\<open>explain_ExecutorRun\<close> and \<^verbatim>\<open>explain_ExecutorFinish\<close>\<close>

text \<open>
  Lines 296 to 313 and 318 to 334. \<^verbatim>\<open>PG_TRY(); { body } PG_FINALLY(); { cleanup }
  PG_END_TRY();\<close> runs the cleanup after the body on both paths, and raises the body's
  error again after the cleanup.
\<close>

definition explain_ExecutorRun ::
  "('i, 'p, 'q, 'e) env \<Rightarrow> ('i, 'p, 'q, 'e) ExecutorRun_hook_type" where
  "explain_ExecutorRun pg queryDesc direction count s =
     (case ExecutorRun_delegate pg queryDesc direction count
             (s\<lparr>nesting_level := nesting_level s + 1\<rparr>) of
        (Inr u, qd', s') \<Rightarrow> (Inr u, qd', s'\<lparr>nesting_level := nesting_level s' - 1\<rparr>)
      | (Inl e, qd', s') \<Rightarrow> (Inl e, qd', s'\<lparr>nesting_level := nesting_level s' - 1\<rparr>))"

definition explain_ExecutorFinish ::
  "('i, 'p, 'q, 'e) env \<Rightarrow> ('i, 'p, 'q, 'e) ExecutorFinish_hook_type" where
  "explain_ExecutorFinish pg queryDesc s =
     (case ExecutorFinish_delegate pg queryDesc (s\<lparr>nesting_level := nesting_level s + 1\<rparr>) of
        (Inr u, qd', s') \<Rightarrow> (Inr u, qd', s'\<lparr>nesting_level := nesting_level s' - 1\<rparr>)
      | (Inl e, qd', s') \<Rightarrow> (Inl e, qd', s'\<lparr>nesting_level := nesting_level s' - 1\<rparr>))"

section \<open>\<^verbatim>\<open>explain_ExecutorEnd\<close>\<close>

text \<open>Sequencing of calls that can raise: the first error ends the sequence.\<close>

definition and_then :: "error + 'a \<Rightarrow> ('a \<Rightarrow> error + 'b) \<Rightarrow> error + 'b" where
  "and_then r f = (case r of Inl e \<Rightarrow> Inl e | Inr x \<Rightarrow> f x)"

text \<open>A call of an explain library function on \<^verbatim>\<open>es\<close>: it rewrites the buffer.\<close>

definition appending :: "ExplainState \<Rightarrow> error + string \<Rightarrow> error + ExplainState" where
  "appending es r = and_then r (\<lambda>d. Inr (es\<lparr>str := d\<rparr>))"

text \<open>Lines 360 to 371: the options of the rendering.\<close>

definition explain_options ::
  "('i, 'p, 'q, 'e) env \<Rightarrow> gucs \<Rightarrow> ('i, 'p, 'q) QueryDesc \<Rightarrow> ExplainState" where
  "explain_options pg g queryDesc =
     (let es = NewExplainState pg;
          es = es\<lparr>analyze := (instrument_options queryDesc \<noteq> 0 \<and> pg_plan_watch_log_analyze g)\<rparr>;
          es = es\<lparr>verbose := pg_plan_watch_log_verbose g\<rparr>;
          es = es\<lparr>buffers := (analyze es \<and> pg_plan_watch_log_buffers g)\<rparr>;
          es = es\<lparr>wal := (analyze es \<and> pg_plan_watch_log_wal g)\<rparr>;
          es = es\<lparr>timing := (analyze es \<and> pg_plan_watch_log_timing g)\<rparr>;
          es = es\<lparr>summary := analyze es\<rparr>;
          es = es\<lparr>format := pg_plan_watch_log_format g\<rparr>;
          es = es\<lparr>settings := pg_plan_watch_log_settings g\<rparr>
      in es)"

text \<open>Lines 373 to 381: the calls of the explain library, in the order of the source.\<close>

definition explain_render ::
  "('i, 'p, 'q, 'e) env \<Rightarrow> gucs \<Rightarrow> ('i, 'p, 'q) QueryDesc \<Rightarrow> ExplainState
     \<Rightarrow> error + ExplainState" where
  "explain_render pg g queryDesc es0 =
     and_then (appending es0 (ExplainBeginOutput pg es0)) (\<lambda>es1.
     and_then (appending es1 (ExplainQueryText pg es1 queryDesc)) (\<lambda>es2.
     and_then (appending es2 (ExplainQueryParameters pg es2 (params queryDesc)
                                (pg_plan_watch_log_parameter_max_length g))) (\<lambda>es3.
     and_then (appending es3 (ExplainPrintPlan pg es3 queryDesc)) (\<lambda>es4.
     and_then (if analyze es4 \<and> pg_plan_watch_log_triggers g
               then appending es4 (ExplainPrintTriggers pg es4 queryDesc)
               else Inr es4) (\<lambda>es5.
     and_then (if costs es5
               then appending es5 (ExplainPrintJITSummary pg es5 queryDesc)
               else Inr es5) (\<lambda>es6.
     appending es6 (ExplainEndOutput pg es6)))))))"

text \<open>
  Lines 383 to 385, ``Remove last line break'':
  \<^verbatim>\<open>if (len > 0 && data[len - 1] == '\n') data[--len] = '\0';\<close>
\<close>

definition remove_last_line_break :: "string \<Rightarrow> string" where
  "remove_last_line_break d =
     (if length d > 0 \<and> d ! (length d - 1) = CHR 0x0A then take (length d - 1) d else d)"

text \<open>
  Lines 390 and 391, ``Fix JSON to output an object'': \<^verbatim>\<open>data[0] = '{';
  data[len - 1] = '}';\<close>. With \<^verbatim>\<open>len = 0\<close> the second assignment writes
  \<^verbatim>\<open>data[-1]\<close>, the byte before the buffer.
\<close>

definition fix_json :: "string \<Rightarrow> error + string" where
  "fix_json d =
     (if length d = 0 then Inl OUT_OF_BOUNDS
      else Inr ((d[0 := CHR ''{''])[length d - 1 := CHR ''}'']))"

text \<open>Lines 383 to 392 on the \<^verbatim>\<open>ExplainState\<close>.\<close>

definition explain_postprocess :: "gucs \<Rightarrow> ExplainState \<Rightarrow> error + ExplainState" where
  "explain_postprocess g es =
     (let es' = es\<lparr>str := remove_last_line_break (str es)\<rparr>
      in if pg_plan_watch_log_format g = EXPLAIN_FORMAT_JSON
         then appending es' (fix_json (str es'))
         else Inr es')"

text \<open>
  What \<^verbatim>\<open>%s\<close> prints of a buffer: the bytes before the first NUL byte.
\<close>

definition c_string :: "string \<Rightarrow> string" where
  "c_string d = takeWhile (\<lambda>c. c \<noteq> CHR 0x00) d"

text \<open>
  What \<^verbatim>\<open>%.3f\<close> prints of a finite double, given its sign and its magnitude rounded
  to thousandths: a minus sign if negative, the integer part in decimal digits (at least
  one), a point, three digits.
\<close>

fun decimal :: "nat \<Rightarrow> string" where
  "decimal n = (if n < 10 then [''0123456789'' ! n]
                else decimal (n div 10) @ [''0123456789'' ! (n mod 10)])"

declare decimal.simps [simp del]

fun printf_3f :: "bool \<times> nat \<Rightarrow> string" where
  "printf_3f (negative, k) =
     (if negative then ''-'' else []) @ decimal (k div 1000) @ ''.'' @
     [''0123456789'' ! (k div 100 mod 10), ''0123456789'' ! (k div 10 mod 10),
      ''0123456789'' ! (k mod 10)]"

text \<open>
  The message \<^verbatim>\<open>errmsg("duration: %.3f ms  plan:\n%s", total * 1000.0, data)\<close> of
  line 401.
\<close>

definition errmsg_duration_plan :: "bool \<times> nat \<Rightarrow> string \<Rightarrow> string" where
  "errmsg_duration_plan msec d =
     ''duration: '' @ printf_3f msec @ '' ms  plan:'' @ [CHR 0x0A] @ c_string d"

text \<open>
  \<^verbatim>\<open>ereport(level, (errmsg(...), errhidestmt(hide)))\<close> at a level below
  \<^verbatim>\<open>ERROR\<close>: the message goes to the sink and control returns.
\<close>

definition ereport :: "elevel \<Rightarrow> string \<Rightarrow> bool \<Rightarrow> 'e backend \<Rightarrow> 'e backend" where
  "ereport lvl msg hide s =
     s\<lparr>server_log := server_log s @ [\<lparr>elevel = lvl, message = msg, hide_stmt = hide\<rparr>]\<rparr>"

text \<open>
  Lines 343 to 407, the body of the outer \<^verbatim>\<open>if\<close>: \<^verbatim>\<open>InstrEndLoop\<close>, then the
  block under \<^verbatim>\<open>if (true)\<close> of line 358. The accumulator is the one found non-null
  at line 342.
\<close>

definition explain_report ::
  "('i, 'p, 'q, 'e) env \<Rightarrow> gucs \<Rightarrow> 'i \<Rightarrow> ('i, 'p, 'q) QueryDesc \<Rightarrow> 'e backend
     \<Rightarrow> (unit, 'i, 'p, 'q, 'e) outcome" where
  "explain_report pg g instr queryDesc s =
     (case InstrEndLoop pg instr of
        Inl e \<Rightarrow> (Inl e, queryDesc, s)
      | Inr instr' \<Rightarrow>
          let qd = queryDesc\<lparr>totaltime := Some instr'\<rparr> in
          if True then
            (case and_then (explain_render pg g qd (explain_options pg g qd))
                    (explain_postprocess g) of
               Inl e \<Rightarrow> (Inl e, qd, s)
             | Inr es \<Rightarrow>
                 (Inr (), qd,
                  ereport (pg_plan_watch_log_level g)
                    (errmsg_duration_plan (msec_thousandths pg instr') (str es)) True s))
          else (Inr (), qd, s))"

text \<open>
  Lines 339 to 413. No \<^verbatim>\<open>PG_TRY\<close> encloses the report, so an error raised in it
  leaves \<^verbatim>\<open>explain_ExecutorEnd\<close> before line 409.
\<close>

definition explain_ExecutorEnd ::
  "('i, 'p, 'q, 'e) env \<Rightarrow> gucs \<Rightarrow> ('i, 'p, 'q, 'e) ExecutorEnd_hook_type" where
  "explain_ExecutorEnd pg g queryDesc s =
     (case totaltime queryDesc of
        None \<Rightarrow> ExecutorEnd_delegate pg queryDesc s
      | Some instr \<Rightarrow>
          if pg_plan_watch_enabled g s then
            (case explain_report pg g instr queryDesc s of
               (Inl e, qd', s') \<Rightarrow> (Inl e, qd', s')
             | (Inr u, qd', s') \<Rightarrow> ExecutorEnd_delegate pg qd' s')
          else ExecutorEnd_delegate pg queryDesc s)"

section \<open>A small server to evaluate the hooks on\<close>

text \<open>
  A concrete instance of the parameters, used where a statement is evaluated at an input.
  Its \<^verbatim>\<open>Instrumentation\<close> is the elapsed time as a whole number of microseconds,
  its parameter list a list of strings, its plan the text of the plan, and the rest of the
  server's state the number of executors that \<^verbatim>\<open>standard_ExecutorEnd\<close> has shut
  down. The constants have the values of the server's headers.
\<close>

definition sample_ExplainState :: ExplainState where
  "sample_ExplainState =
     \<lparr>str = [], analyze = False, verbose = False, buffers = False, wal = False,
      timing = False, summary = False, format = EXPLAIN_FORMAT_TEXT, settings = False,
      costs = True\<rparr>"

definition sample_env :: "(nat, string list, string, nat) env" where
  "sample_env =
     \<lparr>EXEC_FLAG_EXPLAIN_ONLY = 0x0001,
      INSTRUMENT_TIMER = 1, INSTRUMENT_BUFFERS = 2, INSTRUMENT_ROWS = 4, INSTRUMENT_WAL = 8,
      INSTRUMENT_ALL = 0x7FFFFFFF,
      prev_ExecutorStart = None, prev_ExecutorRun = None,
      prev_ExecutorFinish = None, prev_ExecutorEnd = None,
      standard_ExecutorStart = (\<lambda>qd eflags s. (Inr True, qd, s)),
      standard_ExecutorRun = (\<lambda>qd direction count s. (Inr (), qd, s)),
      standard_ExecutorFinish = (\<lambda>qd s. (Inr (), qd, s)),
      standard_ExecutorEnd = (\<lambda>qd s. (Inr (), qd, s\<lparr>engine := engine s + 1\<rparr>)),
      InstrAlloc = (\<lambda>n opts async. 0),
      InstrEndLoop = Inr,
      NewExplainState = sample_ExplainState,
      ExplainBeginOutput = (\<lambda>es. Inr (str es)),
      ExplainQueryText = (\<lambda>es qd. Inr (str es @ ''Query Text: '' @ sourceText qd @ [CHR 0x0A])),
      ExplainQueryParameters = (\<lambda>es ps maxlen. Inr (str es)),
      ExplainPrintPlan = (\<lambda>es qd. Inr (str es @ plannedstmt qd @ [CHR 0x0A])),
      ExplainPrintTriggers = (\<lambda>es qd. Inr (str es)),
      ExplainPrintJITSummary = (\<lambda>es qd. Inr (str es)),
      ExplainEndOutput = (\<lambda>es. Inr (str es)),
      msec_thousandths = (\<lambda>us. (False, us))\<rparr>"

text \<open>The same server with an explain library that fails to print the plan.\<close>

definition sample_env_render_fails :: "(nat, string list, string, nat) env" where
  "sample_env_render_fails =
     sample_env\<lparr>ExplainPrintPlan := (\<lambda>es qd. Inl (ERROR ''could not print plan''))\<rparr>"

text \<open>
  The same server with a run handler that is cancelled, and one whose run handler executes
  a nested statement through this module's run hook, where it is cancelled.
\<close>

definition sample_env_run_fails :: "(nat, string list, string, nat) env" where
  "sample_env_run_fails =
     sample_env\<lparr>standard_ExecutorRun :=
       (\<lambda>qd direction count s. (Inl (ERROR ''canceling statement''), qd, s))\<rparr>"

definition sample_env_nested :: "(nat, string list, string, nat) env" where
  "sample_env_nested =
     sample_env\<lparr>standard_ExecutorRun := explain_ExecutorRun sample_env_run_fails,
                standard_ExecutorFinish := explain_ExecutorFinish sample_env\<rparr>"

text \<open>Reports wanted for statements of one second or more, in text format.\<close>

definition sample_gucs :: gucs where
  "sample_gucs =
     \<lparr>pg_plan_watch_log_min_duration = 1000,
      pg_plan_watch_log_parameter_max_length = - 1,
      pg_plan_watch_log_analyze = False,
      pg_plan_watch_log_verbose = False,
      pg_plan_watch_log_buffers = False,
      pg_plan_watch_log_wal = False,
      pg_plan_watch_log_triggers = False,
      pg_plan_watch_log_timing = True,
      pg_plan_watch_log_settings = False,
      pg_plan_watch_log_format = EXPLAIN_FORMAT_TEXT,
      pg_plan_watch_log_level = LOG,
      pg_plan_watch_log_nested_statements = False\<rparr>"

text \<open>A statement that ran for 123 microseconds, at top level.\<close>

definition sample_QueryDesc :: "(nat, string list, string) QueryDesc" where
  "sample_QueryDesc =
     \<lparr>sourceText = ''SELECT 1'', plannedstmt = ''Result'', params = [],
      instrument_options = 0, totaltime = Some 123\<rparr>"

definition sample_backend :: "nat backend" where
  "sample_backend = \<lparr>nesting_level = 0, server_log = [], engine = 0\<rparr>"

text \<open>The report of that statement.\<close>

definition sample_report :: ErrorData where
  "sample_report =
     \<lparr>elevel = LOG,
      message = ''duration: 0.123 ms  plan:'' @ [CHR 0x0A] @
                ''Query Text: SELECT 1'' @ [CHR 0x0A] @ ''Result'',
      hide_stmt = True\<rparr>"

lemmas sample_defs = sample_env_def sample_gucs_def sample_QueryDesc_def sample_backend_def
  sample_ExplainState_def sample_env_render_fails_def sample_report_def

section \<open>Facts shared by the proofs\<close>

lemmas end_defs = explain_ExecutorEnd_def explain_report_def explain_render_def
  explain_options_def explain_postprocess_def appending_def and_then_def
  ExecutorEnd_delegate_def pg_plan_watch_enabled_def ereport_def errmsg_duration_plan_def
  c_string_def remove_last_line_break_def fix_json_def word_sle_eq

lemma disabled_not_enabled:
  "pg_plan_watch_log_min_duration g <s 0 \<Longrightarrow> \<not> pg_plan_watch_enabled g s"
  by (simp add: pg_plan_watch_enabled_def word_sle_eq word_sless_alt)

lemma nested_not_enabled:
  "1 \<le>s nesting_level s \<Longrightarrow> \<not> pg_plan_watch_log_nested_statements g
     \<Longrightarrow> \<not> pg_plan_watch_enabled g s"
  by (auto simp: pg_plan_watch_enabled_def word_sle_eq)

lemma request_not_enabled:
  "\<not> pg_plan_watch_enabled g s \<Longrightarrow> request_instrumentation pg g s eflags qd = qd"
  by (simp add: request_instrumentation_def)

lemma track_not_enabled:
  "\<not> pg_plan_watch_enabled g s \<Longrightarrow> track_totaltime pg g s qd = qd"
  by (simp add: track_totaltime_def)

lemma End_not_enabled:
  "\<not> pg_plan_watch_enabled g s \<Longrightarrow>
     explain_ExecutorEnd pg g qd s = ExecutorEnd_delegate pg qd s"
  by (simp add: explain_ExecutorEnd_def split: option.splits)


lemma End_after_report:
  assumes "totaltime qd = Some i" and "pg_plan_watch_enabled g s"
  shows "explain_ExecutorEnd pg g qd s =
           (case explain_report pg g i qd s of
              (Inl e, qd', s') \<Rightarrow> (Inl e, qd', s')
            | (Inr u, qd', s') \<Rightarrow> ExecutorEnd_delegate pg qd' s')"
  using assms by (simp add: explain_ExecutorEnd_def)

text \<open>What \<^verbatim>\<open>explain_ExecutorStart\<close> returns, from what its delegate returns.\<close>

lemma Start_result:
  assumes "ExecutorStart_delegate pg (request_instrumentation pg g s eflags qd) eflags s
             = (r, qd', s')"
  shows "explain_ExecutorStart pg g qd eflags s =
           (r, if r = Inr True then track_totaltime pg g s' qd' else qd', s')"
  using assms by (cases r) (auto simp: explain_ExecutorStart_def)

lemma Start_not_enabled:
  fixes pg :: "('i, 'p, 'q, 'e) env"
  assumes "\<And>s' :: 'e backend. \<not> pg_plan_watch_enabled g s'"
  shows "explain_ExecutorStart pg g qd eflags s = ExecutorStart_delegate pg qd eflags s"
proof -
  obtain r qd' s' where d: "ExecutorStart_delegate pg qd eflags s = (r, qd', s')"
    by (cases "ExecutorStart_delegate pg qd eflags s") auto
  have "request_instrumentation pg g s eflags qd = qd"
    using assms by (rule request_not_enabled)
  moreover have "track_totaltime pg g s' qd' = qd'"
    using assms by (rule track_not_enabled)
  ultimately show ?thesis
    using d by (cases r) (simp_all add: explain_ExecutorStart_def)
qed

lemma request_totaltime:
  "totaltime (request_instrumentation pg g s eflags qd) = totaltime qd"
  by (simp add: request_instrumentation_def Let_def)

lemma request_bits:
  "bit (instrument_options qd) n \<Longrightarrow>
     bit (instrument_options (request_instrumentation pg g s eflags qd)) n"
  by (simp add: request_instrumentation_def Let_def bit_or_iff)

lemma track_options:
  "instrument_options (track_totaltime pg g s qd) = instrument_options qd"
  by (simp add: track_totaltime_def)

lemma track_keeps:
  "totaltime qd \<noteq> None \<Longrightarrow> track_totaltime pg g s qd = qd"
  by (simp add: track_totaltime_def)

text \<open>The three sub-flags when \<^verbatim>\<open>log_analyze\<close> is off, function by function.\<close>

lemma enabled_subflags:
  "pg_plan_watch_enabled (g\<lparr>pg_plan_watch_log_buffers := b, pg_plan_watch_log_wal := w,
                            pg_plan_watch_log_triggers := t\<rparr>) = pg_plan_watch_enabled g"
  by (rule ext) (simp add: pg_plan_watch_enabled_def)

lemma request_subflags:
  "\<not> pg_plan_watch_log_analyze g \<Longrightarrow>
     request_instrumentation pg (g\<lparr>pg_plan_watch_log_buffers := b,
         pg_plan_watch_log_wal := w, pg_plan_watch_log_triggers := t\<rparr>) s eflags qd =
       request_instrumentation pg g s eflags qd"
  by (simp add: request_instrumentation_def enabled_subflags)

lemma track_subflags:
  "track_totaltime pg (g\<lparr>pg_plan_watch_log_buffers := b,
       pg_plan_watch_log_wal := w, pg_plan_watch_log_triggers := t\<rparr>) s qd =
     track_totaltime pg g s qd"
  by (simp add: track_totaltime_def enabled_subflags)

lemma options_subflags:
  "\<not> pg_plan_watch_log_analyze g \<Longrightarrow>
     explain_options pg (g\<lparr>pg_plan_watch_log_buffers := b, pg_plan_watch_log_wal := w,
                           pg_plan_watch_log_triggers := t\<rparr>) qd = explain_options pg g qd"
  by (simp add: explain_options_def Let_def)

lemma options_analyze:
  "analyze (explain_options pg g qd) =
     (instrument_options qd \<noteq> 0 \<and> pg_plan_watch_log_analyze g)"
  by (simp add: explain_options_def Let_def)

lemma appending_analyze:
  "appending es r = Inr es' \<Longrightarrow> analyze es' = analyze es"
  by (auto simp: appending_def and_then_def split: sum.splits)

lemma render_subflags:
  assumes "\<not> analyze es"
  shows "explain_render pg (g\<lparr>pg_plan_watch_log_buffers := b, pg_plan_watch_log_wal := w,
                              pg_plan_watch_log_triggers := t\<rparr>) qd es = explain_render pg g qd es"
  using assms
  by (auto simp: explain_render_def and_then_def split: sum.splits dest!: appending_analyze)

lemma postprocess_subflags:
  "explain_postprocess (g\<lparr>pg_plan_watch_log_buffers := b, pg_plan_watch_log_wal := w,
                          pg_plan_watch_log_triggers := t\<rparr>) = explain_postprocess g"
  by (rule ext) (simp add: explain_postprocess_def)

lemma report_subflags:
  assumes "\<not> pg_plan_watch_log_analyze g"
  shows "explain_report pg (g\<lparr>pg_plan_watch_log_buffers := b, pg_plan_watch_log_wal := w,
                              pg_plan_watch_log_triggers := t\<rparr>) i qd s = explain_report pg g i qd s"
  using assms
  by (simp add: explain_report_def options_subflags render_subflags options_analyze
      postprocess_subflags Let_def split: sum.splits)





lemma fix_json_long:
  "2 \<le> length d \<Longrightarrow> fix_json d = Inr (CHR ''{'' # butlast (tl d) @ [CHR ''}''])"
  apply (cases d rule: rev_cases; simp add: fix_json_def)
  subgoal for ys y
    by (cases ys; simp add: list_update_append)
  done

lemma in_set_tl: "x \<in> set (tl xs) \<Longrightarrow> x \<in> set xs"
  by (cases xs) auto








text \<open>The small server, evaluated.\<close>

lemma sample_enabled: "pg_plan_watch_enabled sample_gucs sample_backend"
  by (simp add: sample_defs pg_plan_watch_enabled_def word_sle_eq)


lemma sample_explain_report:
  "explain_report sample_env sample_gucs 123 sample_QueryDesc sample_backend =
     (Inr (), sample_QueryDesc, sample_backend\<lparr>server_log := [sample_report]\<rparr>)"
  by (simp add: sample_defs end_defs decimal.simps Let_def)


section \<open>The enabling condition\<close>

text \<open>
  Claim C3. Whether instrumentation and reporting are enabled for an execution depends on
  the configuration and the nesting depth only: it is enabled exactly when
  \<^verbatim>\<open>log_min_duration\<close> is not negative and the depth is 0 or
  \<^verbatim>\<open>log_nested_statements\<close> is on. In particular, with
  \<^verbatim>\<open>log_nested_statements\<close> off, at depth 1 or more the start hook requests no
  instrumentation and sets up no accumulator, and the end hook does nothing but call its
  delegate, so that no report is sent.
\<close>

theorem pg_plan_watch_enabled_depends_on_threshold_and_depth:
  "(pg_plan_watch_enabled g s \<longleftrightarrow>
      \<not> sint (pg_plan_watch_log_min_duration g) < 0 \<and>
      (nesting_level s = 0 \<or> pg_plan_watch_log_nested_statements g)) \<and>
   (1 \<le>s nesting_level s \<and> \<not> pg_plan_watch_log_nested_statements g \<longrightarrow>
      request_instrumentation pg g s eflags qd = qd \<and>
      track_totaltime pg g s qd = qd \<and>
      explain_ExecutorEnd pg g qd s = ExecutorEnd_delegate pg qd s)"
proof (intro conjI impI)
  show "pg_plan_watch_enabled g s \<longleftrightarrow>
      \<not> sint (pg_plan_watch_log_min_duration g) < 0 \<and>
      (nesting_level s = 0 \<or> pg_plan_watch_log_nested_statements g)"
    by (auto simp: pg_plan_watch_enabled_def word_sle_eq)
next
  assume "1 \<le>s nesting_level s \<and> \<not> pg_plan_watch_log_nested_statements g"
  then have off: "\<not> pg_plan_watch_enabled g s"
    by (simp add: nested_not_enabled)
  from off show "request_instrumentation pg g s eflags qd = qd"
    by (rule request_not_enabled)
  from off show "track_totaltime pg g s qd = qd"
    by (rule track_not_enabled)
  from off show "explain_ExecutorEnd pg g qd s = ExecutorEnd_delegate pg qd s"
    by (rule End_not_enabled)
qed

text \<open>
  Claim C3 at an input: the sample statement at depth 1. The end hook only shuts the
  executor down; the log stays empty.
\<close>

theorem pg_plan_watch_enabled_depends_on_threshold_and_depth_witness:
  "1 \<le>s nesting_level (sample_backend\<lparr>nesting_level := 1\<rparr>) \<and>
   \<not> pg_plan_watch_log_nested_statements sample_gucs \<and>
   \<not> pg_plan_watch_enabled sample_gucs (sample_backend\<lparr>nesting_level := 1\<rparr>) \<and>
   explain_ExecutorEnd sample_env sample_gucs sample_QueryDesc
       (sample_backend\<lparr>nesting_level := 1\<rparr>) =
     (Inr (), sample_QueryDesc, \<lparr>nesting_level = 1, server_log = [], engine = 1\<rparr>)"
proof -
  have h: "1 \<le>s nesting_level (sample_backend\<lparr>nesting_level := 1\<rparr>) \<and>
           \<not> pg_plan_watch_log_nested_statements sample_gucs"
    by (simp add: sample_defs word_sle_eq)
  have d: "ExecutorEnd_delegate sample_env sample_QueryDesc
             (sample_backend\<lparr>nesting_level := 1\<rparr>) =
           (Inr (), sample_QueryDesc, \<lparr>nesting_level = 1, server_log = [], engine = 1\<rparr>)"
    by (simp add: sample_defs ExecutorEnd_delegate_def)
  have n: "nesting_level (sample_backend\<lparr>nesting_level := 1\<rparr>) \<noteq> 0"
    by simp
  show ?thesis
    using h d n pg_plan_watch_enabled_depends_on_threshold_and_depth
      [of sample_gucs "sample_backend\<lparr>nesting_level := 1\<rparr>" sample_env 0 sample_QueryDesc]
    by simp
qed

text \<open>
  Claim C5. When \<^verbatim>\<open>log_min_duration\<close> is negative, whatever the other settings
  are: the start hook requests no instrumentation, sets up no accumulator and is its
  delegate; the end hook is its delegate, so it sends no report.
\<close>

theorem disabled_threshold_hooks_only_delegate:
  assumes "pg_plan_watch_log_min_duration g <s 0"
  shows "request_instrumentation pg g s eflags qd = qd \<and>
         track_totaltime pg g s' qd' = qd' \<and>
         explain_ExecutorStart pg g qd eflags s = ExecutorStart_delegate pg qd eflags s \<and>
         explain_ExecutorEnd pg g qd s = ExecutorEnd_delegate pg qd s"
  using assms
  by (simp add: disabled_not_enabled request_not_enabled track_not_enabled
      End_not_enabled Start_not_enabled)

text \<open>
  Claim C5 at an input: the sample settings with \<^verbatim>\<open>log_min_duration = -1\<close> and
  every flag that asks for more detail switched on, on a statement without accumulator.
\<close>

theorem disabled_threshold_hooks_only_delegate_witness:
  "pg_plan_watch_log_min_duration
     (sample_gucs\<lparr>pg_plan_watch_log_min_duration := - 1, pg_plan_watch_log_analyze := True,
        pg_plan_watch_log_buffers := True, pg_plan_watch_log_nested_statements := True\<rparr>) <s 0 \<and>
   explain_ExecutorStart sample_env
     (sample_gucs\<lparr>pg_plan_watch_log_min_duration := - 1, pg_plan_watch_log_analyze := True,
        pg_plan_watch_log_buffers := True, pg_plan_watch_log_nested_statements := True\<rparr>)
     (sample_QueryDesc\<lparr>totaltime := None\<rparr>) 0 sample_backend =
     (Inr True, sample_QueryDesc\<lparr>totaltime := None\<rparr>, sample_backend) \<and>
   explain_ExecutorEnd sample_env
     (sample_gucs\<lparr>pg_plan_watch_log_min_duration := - 1, pg_plan_watch_log_analyze := True,
        pg_plan_watch_log_buffers := True, pg_plan_watch_log_nested_statements := True\<rparr>)
     sample_QueryDesc sample_backend =
     (Inr (), sample_QueryDesc, \<lparr>nesting_level = 0, server_log = [], engine = 1\<rparr>)"
proof -
  let ?g = "sample_gucs\<lparr>pg_plan_watch_log_min_duration := - 1,
     pg_plan_watch_log_analyze := True, pg_plan_watch_log_buffers := True,
     pg_plan_watch_log_nested_statements := True\<rparr>"
  have h: "pg_plan_watch_log_min_duration ?g <s 0"
    by (simp add: word_sless_alt)
  have d1: "ExecutorStart_delegate sample_env (sample_QueryDesc\<lparr>totaltime := None\<rparr>) 0
              sample_backend = (Inr True, sample_QueryDesc\<lparr>totaltime := None\<rparr>, sample_backend)"
    by (simp add: sample_defs ExecutorStart_delegate_def)
  have d2: "ExecutorEnd_delegate sample_env sample_QueryDesc sample_backend =
              (Inr (), sample_QueryDesc, \<lparr>nesting_level = 0, server_log = [], engine = 1\<rparr>)"
    by (simp add: sample_defs ExecutorEnd_delegate_def)
  show ?thesis
    using h d1 d2
      disabled_threshold_hooks_only_delegate [OF h, of sample_env sample_backend 0
        "sample_QueryDesc\<lparr>totaltime := None\<rparr>" sample_backend sample_QueryDesc]
      disabled_threshold_hooks_only_delegate [OF h, of sample_env sample_backend 0
        sample_QueryDesc sample_backend sample_QueryDesc]
    by simp
qed

section \<open>The start hook\<close>

text \<open>
  Claim C9. When the start flags include \<^verbatim>\<open>EXEC_FLAG_EXPLAIN_ONLY\<close>, the start hook
  leaves the \<^verbatim>\<open>QueryDesc\<close> as it is before it calls its delegate, whatever the
  settings are, and the option bits it returns are those the delegate returns for the
  unchanged \<^verbatim>\<open>QueryDesc\<close>.
\<close>

theorem explain_only_requests_no_instrumentation:
  assumes "eflags AND EXEC_FLAG_EXPLAIN_ONLY pg \<noteq> 0"
  shows "request_instrumentation pg g s eflags qd = qd \<and>
         instrument_options (fst (snd (explain_ExecutorStart pg g qd eflags s))) =
           instrument_options (fst (snd (ExecutorStart_delegate pg qd eflags s)))"
proof -
  have r: "request_instrumentation pg g s eflags qd = qd"
    using assms by (simp add: request_instrumentation_def)
  obtain x qd' s' where d: "ExecutorStart_delegate pg qd eflags s = (x, qd', s')"
    by (cases "ExecutorStart_delegate pg qd eflags s") auto
  show ?thesis
    using r d Start_result [of pg g s eflags qd x qd' s'] by (simp add: track_options)
qed

text \<open>
  Claim C9 at an input: \<^verbatim>\<open>log_min_duration = 0\<close>, \<^verbatim>\<open>log_analyze\<close> and
  \<^verbatim>\<open>log_buffers\<close> on, start flags \<^verbatim>\<open>EXEC_FLAG_EXPLAIN_ONLY\<close> alone.
\<close>

theorem explain_only_requests_no_instrumentation_witness:
  "1 AND EXEC_FLAG_EXPLAIN_ONLY sample_env \<noteq> 0 \<and>
   pg_plan_watch_enabled
     (sample_gucs\<lparr>pg_plan_watch_log_min_duration := 0, pg_plan_watch_log_analyze := True,
        pg_plan_watch_log_buffers := True\<rparr>) sample_backend \<and>
   instrument_options (fst (snd (explain_ExecutorStart sample_env
     (sample_gucs\<lparr>pg_plan_watch_log_min_duration := 0, pg_plan_watch_log_analyze := True,
        pg_plan_watch_log_buffers := True\<rparr>) sample_QueryDesc 1 sample_backend))) = 0"
proof -
  have h: "1 AND EXEC_FLAG_EXPLAIN_ONLY sample_env \<noteq> 0"
    by (simp add: sample_defs)
  have e: "pg_plan_watch_enabled
     (sample_gucs\<lparr>pg_plan_watch_log_min_duration := 0, pg_plan_watch_log_analyze := True,
        pg_plan_watch_log_buffers := True\<rparr>) sample_backend"
    by (simp add: sample_defs pg_plan_watch_enabled_def)
  have d: "ExecutorStart_delegate sample_env sample_QueryDesc 1 sample_backend =
             (Inr True, sample_QueryDesc, sample_backend)"
    by (simp add: sample_defs ExecutorStart_delegate_def)
  have z: "instrument_options sample_QueryDesc = 0"
    by (simp add: sample_defs)
  show ?thesis
    using h e d z explain_only_requests_no_instrumentation [OF h,
      of "sample_gucs\<lparr>pg_plan_watch_log_min_duration := 0, pg_plan_watch_log_analyze := True,
        pg_plan_watch_log_buffers := True\<rparr>" sample_backend sample_QueryDesc]
    by simp
qed

text \<open>
  Claim C10. The start hook never replaces an accumulator and never clears an option bit.
  Before the delegate runs it leaves \<^verbatim>\<open>totaltime\<close> alone and every option bit that
  was set stays set. After the delegate has returned a \<^verbatim>\<open>QueryDesc\<close>, the hook
  returns that \<^verbatim>\<open>QueryDesc\<close> unchanged if it carries an accumulator, and with the same
  option bits in any case. So an accumulator present at entry, which the delegate leaves in
  place, is the accumulator at exit.
\<close>

theorem explain_ExecutorStart_keeps_accumulator_and_bits:
  assumes "ExecutorStart_delegate pg (request_instrumentation pg g s eflags qd) eflags s
             = (r, qd', s')"
  shows "totaltime (request_instrumentation pg g s eflags qd) = totaltime qd \<and>
         (\<forall>n. bit (instrument_options qd) n \<longrightarrow>
              bit (instrument_options (request_instrumentation pg g s eflags qd)) n) \<and>
         (totaltime qd' \<noteq> None \<longrightarrow>
            fst (snd (explain_ExecutorStart pg g qd eflags s)) = qd') \<and>
         instrument_options (fst (snd (explain_ExecutorStart pg g qd eflags s))) =
           instrument_options qd' \<and>
         (totaltime qd \<noteq> None \<and> totaltime qd' = totaltime qd \<longrightarrow>
            totaltime (fst (snd (explain_ExecutorStart pg g qd eflags s))) = totaltime qd)"
  using Start_result [OF assms]
  by (simp add: request_totaltime request_bits track_options track_keeps)

text \<open>
  Claim C10 at an input: the sample statement, which carries the accumulator 123 and has
  option bit 16 set by another observer, under \<^verbatim>\<open>log_min_duration = 0\<close> with
  \<^verbatim>\<open>log_analyze\<close> on. The hook adds \<^verbatim>\<open>INSTRUMENT_TIMER\<close> and keeps the rest.
\<close>

theorem explain_ExecutorStart_keeps_accumulator_and_bits_witness:
  "ExecutorStart_delegate sample_env
     (request_instrumentation sample_env
        (sample_gucs\<lparr>pg_plan_watch_log_min_duration := 0, pg_plan_watch_log_analyze := True\<rparr>)
        sample_backend 0 (sample_QueryDesc\<lparr>instrument_options := 16\<rparr>)) 0 sample_backend =
     (Inr True, sample_QueryDesc\<lparr>instrument_options := 17\<rparr>, sample_backend) \<and>
   fst (snd (explain_ExecutorStart sample_env
     (sample_gucs\<lparr>pg_plan_watch_log_min_duration := 0, pg_plan_watch_log_analyze := True\<rparr>)
     (sample_QueryDesc\<lparr>instrument_options := 16\<rparr>) 0 sample_backend)) =
     sample_QueryDesc\<lparr>instrument_options := 17\<rparr> \<and>
   totaltime (sample_QueryDesc\<lparr>instrument_options := 17\<rparr>) = Some 123"
proof -
  let ?g = "sample_gucs\<lparr>pg_plan_watch_log_min_duration := 0,
              pg_plan_watch_log_analyze := True\<rparr>"
  have h: "ExecutorStart_delegate sample_env
     (request_instrumentation sample_env ?g sample_backend 0
        (sample_QueryDesc\<lparr>instrument_options := 16\<rparr>)) 0 sample_backend =
     (Inr True, sample_QueryDesc\<lparr>instrument_options := 17\<rparr>, sample_backend)"
    by (simp add: sample_defs ExecutorStart_delegate_def request_instrumentation_def
        pg_plan_watch_enabled_def Let_def)
  have t: "totaltime (sample_QueryDesc\<lparr>instrument_options := 17\<rparr>) = Some 123"
    by (simp add: sample_defs)
  show ?thesis
    using h t explain_ExecutorStart_keeps_accumulator_and_bits [OF h] by simp
qed

text \<open>
  Claim C6. When \<^verbatim>\<open>log_analyze\<close> is off, \<^verbatim>\<open>log_buffers\<close>, \<^verbatim>\<open>log_wal\<close> and
  \<^verbatim>\<open>log_triggers\<close> have no effect: with any values for the three, the start hook and
  the end hook do exactly what they do with the values they had (the same instrumentation
  requested, the same calls of the explain library with the same options, the same
  report), and neither raises an error on their account.
\<close>

theorem subflags_need_log_analyze:
  assumes "\<not> pg_plan_watch_log_analyze g"
  shows "explain_ExecutorStart pg (g\<lparr>pg_plan_watch_log_buffers := b,
             pg_plan_watch_log_wal := w, pg_plan_watch_log_triggers := t\<rparr>) qd eflags s =
           explain_ExecutorStart pg g qd eflags s \<and>
         explain_ExecutorEnd pg (g\<lparr>pg_plan_watch_log_buffers := b,
             pg_plan_watch_log_wal := w, pg_plan_watch_log_triggers := t\<rparr>) qd s =
           explain_ExecutorEnd pg g qd s"
  unfolding explain_ExecutorStart_def explain_ExecutorEnd_def
    request_subflags [OF assms] track_subflags enabled_subflags report_subflags [OF assms]
  by simp

text \<open>
  Claim C6 at an input: the sample settings, where \<^verbatim>\<open>log_analyze\<close> is off, with the
  three sub-flags switched on. The report is the one sent with the sub-flags off.
\<close>

theorem subflags_need_log_analyze_witness:
  "\<not> pg_plan_watch_log_analyze sample_gucs \<and>
   explain_ExecutorEnd sample_env
     (sample_gucs\<lparr>pg_plan_watch_log_buffers := True, pg_plan_watch_log_wal := True,
        pg_plan_watch_log_triggers := True\<rparr>) sample_QueryDesc sample_backend =
     (Inr (), sample_QueryDesc,
      \<lparr>nesting_level = 0, server_log = [sample_report], engine = 1\<rparr>)"
proof -
  have h: "\<not> pg_plan_watch_log_analyze sample_gucs"
    by (simp add: sample_defs)
  have e: "explain_ExecutorEnd sample_env sample_gucs sample_QueryDesc sample_backend =
     (Inr (), sample_QueryDesc,
      \<lparr>nesting_level = 0, server_log = [sample_report], engine = 1\<rparr>)"
    using End_after_report [of sample_QueryDesc 123 sample_gucs sample_backend sample_env]
      sample_enabled sample_explain_report
    by (simp add: sample_defs ExecutorEnd_delegate_def)
  show ?thesis
    using h e subflags_need_log_analyze [OF h, of sample_env True True True sample_QueryDesc
      0 sample_backend]
    by simp
qed

section \<open>The run and finish hooks\<close>

text \<open>
  Claim C4. The run hook and the finish hook enter their delegate with the nesting depth
  raised by one, return what the delegate returns or raise what it raises, and leave the
  depth one below the depth the delegate left, on both paths. The counter is private to
  the module, so a delegate reaches it only through these two hooks; when the delegate
  hands the counter back as it received it, the depth after the hook is the depth before
  it, whether the delegate returned or raised.
\<close>

theorem nesting_level_restored_on_every_exit:
  "fst (explain_ExecutorRun pg qd direction count s) =
     fst (ExecutorRun_delegate pg qd direction count (s\<lparr>nesting_level := nesting_level s + 1\<rparr>)) \<and>
   nesting_level (snd (snd (explain_ExecutorRun pg qd direction count s))) =
     nesting_level (snd (snd (ExecutorRun_delegate pg qd direction count
        (s\<lparr>nesting_level := nesting_level s + 1\<rparr>)))) - 1 \<and>
   (nesting_level (snd (snd (ExecutorRun_delegate pg qd direction count
        (s\<lparr>nesting_level := nesting_level s + 1\<rparr>)))) = nesting_level s + 1 \<longrightarrow>
    nesting_level (snd (snd (explain_ExecutorRun pg qd direction count s))) = nesting_level s) \<and>
   fst (explain_ExecutorFinish pg qd s) =
     fst (ExecutorFinish_delegate pg qd (s\<lparr>nesting_level := nesting_level s + 1\<rparr>)) \<and>
   nesting_level (snd (snd (explain_ExecutorFinish pg qd s))) =
     nesting_level (snd (snd (ExecutorFinish_delegate pg qd
        (s\<lparr>nesting_level := nesting_level s + 1\<rparr>)))) - 1 \<and>
   (nesting_level (snd (snd (ExecutorFinish_delegate pg qd
        (s\<lparr>nesting_level := nesting_level s + 1\<rparr>)))) = nesting_level s + 1 \<longrightarrow>
    nesting_level (snd (snd (explain_ExecutorFinish pg qd s))) = nesting_level s)"
  by (auto simp: explain_ExecutorRun_def explain_ExecutorFinish_def split: prod.splits sum.splits)

text \<open>
  Claim C4 at an input: a run handler that executes a nested statement through the run
  hook, where the statement is cancelled. The nested hook restores depth 1, the outer hook
  depth 0, and the error reaches the caller. The finish handler of the same server runs a
  nested finish hook that returns.
\<close>

theorem nesting_level_restored_on_every_exit_witness:
  "nesting_level (snd (snd (ExecutorRun_delegate sample_env_nested sample_QueryDesc
      ForwardScanDirection 0 (sample_backend\<lparr>nesting_level := nesting_level sample_backend + 1\<rparr>))))
     = nesting_level sample_backend + 1 \<and>
   fst (explain_ExecutorRun sample_env_nested sample_QueryDesc ForwardScanDirection 0
      sample_backend) = Inl (ERROR ''canceling statement'') \<and>
   nesting_level (snd (snd (explain_ExecutorRun sample_env_nested sample_QueryDesc
      ForwardScanDirection 0 sample_backend))) = 0 \<and>
   nesting_level (snd (snd (ExecutorFinish_delegate sample_env_nested sample_QueryDesc
      (sample_backend\<lparr>nesting_level := nesting_level sample_backend + 1\<rparr>))))
     = nesting_level sample_backend + 1 \<and>
   fst (explain_ExecutorFinish sample_env_nested sample_QueryDesc sample_backend) = Inr () \<and>
   nesting_level (snd (snd (explain_ExecutorFinish sample_env_nested sample_QueryDesc
      sample_backend))) = 0"
proof -
  have inner: "ExecutorRun_delegate sample_env_nested sample_QueryDesc ForwardScanDirection 0
      (sample_backend\<lparr>nesting_level := nesting_level sample_backend + 1\<rparr>) =
      (Inl (ERROR ''canceling statement''), sample_QueryDesc,
       sample_backend\<lparr>nesting_level := 1\<rparr>)"
    by (simp add: sample_env_nested_def sample_env_run_fails_def sample_defs
        ExecutorRun_delegate_def explain_ExecutorRun_def)
  have inner_finish: "ExecutorFinish_delegate sample_env_nested sample_QueryDesc
      (sample_backend\<lparr>nesting_level := nesting_level sample_backend + 1\<rparr>) =
      (Inr (), sample_QueryDesc, sample_backend\<lparr>nesting_level := 1\<rparr>)"
    by (simp add: sample_env_nested_def sample_defs
        ExecutorFinish_delegate_def explain_ExecutorFinish_def)
  have z: "nesting_level sample_backend = 0"
    by (simp add: sample_defs)
  show ?thesis
    using inner inner_finish z
      nesting_level_restored_on_every_exit [of sample_env_nested sample_QueryDesc
        ForwardScanDirection 0 sample_backend]
    by simp
qed

section \<open>The end hook\<close>

text \<open>
  Claim C1 says that an execution whose elapsed time is below a positive threshold
  produces no report. The condition of line 358 is the constant \<^verbatim>\<open>true\<close>, so the
  end hook never compares the elapsed time with \<^verbatim>\<open>log_min_duration\<close>: with the
  threshold at 1000 ms, a top-level statement that ran for 0.123 ms is reported.
\<close>

theorem explain_ExecutorEnd_reports_below_threshold:
  "pg_plan_watch_log_min_duration sample_gucs = 1000 \<and>
   totaltime sample_QueryDesc = Some 123 \<and>
   explain_ExecutorEnd sample_env sample_gucs sample_QueryDesc sample_backend =
     (Inr (), sample_QueryDesc,
      \<lparr>nesting_level = 0,
       server_log = [\<lparr>elevel = LOG,
                       message = ''duration: 0.123 ms  plan:'' @ [CHR 0x0A] @
                                 ''Query Text: SELECT 1'' @ [CHR 0x0A] @ ''Result'',
                       hide_stmt = True\<rparr>],
       engine = 1\<rparr>)"
  by (simp add: sample_defs end_defs decimal.simps Let_def)

text \<open>
  The same for every pair of thresholds that are not negative: the end hook does the same
  with either.
\<close>

lemma explain_ExecutorEnd_same_for_all_thresholds:
  assumes "0 \<le>s t" and "0 \<le>s t'"
  shows "explain_ExecutorEnd pg (g\<lparr>pg_plan_watch_log_min_duration := t\<rparr>) qd s =
         explain_ExecutorEnd pg (g\<lparr>pg_plan_watch_log_min_duration := t'\<rparr>) qd s"
proof -
  have en: "pg_plan_watch_enabled (g\<lparr>pg_plan_watch_log_min_duration := t\<rparr>) s =
            pg_plan_watch_enabled (g\<lparr>pg_plan_watch_log_min_duration := t'\<rparr>) s"
    using assms by (simp add: pg_plan_watch_enabled_def)
  have opt: "explain_options pg (g\<lparr>pg_plan_watch_log_min_duration := x\<rparr>) q =
             explain_options pg g q" for x q
    by (simp add: explain_options_def)
  have ren: "explain_render pg (g\<lparr>pg_plan_watch_log_min_duration := x\<rparr>) q es =
             explain_render pg g q es" for x q es
    by (simp add: explain_render_def)
  have post: "explain_postprocess (g\<lparr>pg_plan_watch_log_min_duration := x\<rparr>) =
              explain_postprocess g" for x
    by (rule ext) (simp add: explain_postprocess_def)
  have rep: "explain_report pg (g\<lparr>pg_plan_watch_log_min_duration := x\<rparr>) i qd s =
             explain_report pg g i qd s" for x i
    unfolding explain_report_def opt ren post
    by (simp add: Let_def split: sum.splits)
  show ?thesis
    unfolding explain_ExecutorEnd_def en rep by simp
qed




text \<open>
  Claim C7 says that in JSON format the emitted text begins with an opening brace and
  ends with a closing brace for every rendered text that is not empty. Both assignments
  of lines 390 and 391 hit the same byte when one character is left: the rendered text
  \<^verbatim>\<open>[\<close> becomes \<^verbatim>\<open>}\<close>, which does not begin with an opening brace.
\<close>

theorem fix_json_single_character:
  "explain_postprocess (sample_gucs\<lparr>pg_plan_watch_log_format := EXPLAIN_FORMAT_JSON\<rparr>)
     (sample_ExplainState\<lparr>str := ''[''\<rparr>) = Inr (sample_ExplainState\<lparr>str := ''}''\<rparr>) \<and>
   hd ''}'' \<noteq> CHR ''{''"
  by (simp add: sample_defs end_defs Let_def)

text \<open>
  Claim C7 as amended. In JSON format, when at least two characters are left after the
  trailing line break has been removed, the post-processing replaces the first character
  by an opening brace and the last by a closing brace and changes nothing else; a buffer
  without NUL byte is printed whole by \<^verbatim>\<open>%s\<close>, so the emitted text begins with an
  opening brace and ends with a closing brace.
\<close>

theorem fix_json_wraps_in_braces:
  assumes "pg_plan_watch_log_format g = EXPLAIN_FORMAT_JSON"
    and "2 \<le> length (remove_last_line_break (str es))"
  shows "explain_postprocess g es =
           Inr (es\<lparr>str := CHR ''{'' # butlast (tl (remove_last_line_break (str es))) @
                           [CHR ''}'']\<rparr>) \<and>
         (CHR 0x00 \<notin> set (str es) \<longrightarrow>
            c_string (CHR ''{'' # butlast (tl (remove_last_line_break (str es))) @ [CHR ''}''])
              = CHR ''{'' # butlast (tl (remove_last_line_break (str es))) @ [CHR ''}''])"
proof -
  have sub: "set (butlast (tl (remove_last_line_break (str es)))) \<subseteq> set (str es)"
    by (auto simp: remove_last_line_break_def
        dest!: in_set_butlastD in_set_tl dest: in_set_takeD)
  show ?thesis
    using assms sub
    by (auto simp: explain_postprocess_def appending_def and_then_def fix_json_long
        Let_def c_string_def takeWhile_eq_all_conv)
qed

text \<open>
  Claim C7 as amended, at an input: the array \<^verbatim>\<open>[ Plan ]\<close> followed by a line break
  becomes the object \<^verbatim>\<open>{ Plan }\<close>.
\<close>

theorem fix_json_wraps_in_braces_witness:
  "pg_plan_watch_log_format (sample_gucs\<lparr>pg_plan_watch_log_format := EXPLAIN_FORMAT_JSON\<rparr>)
     = EXPLAIN_FORMAT_JSON \<and>
   2 \<le> length (remove_last_line_break (str (sample_ExplainState\<lparr>str := ''[ Plan ]'' @
                                                                    [CHR 0x0A]\<rparr>))) \<and>
   CHR 0x00 \<notin> set (str (sample_ExplainState\<lparr>str := ''[ Plan ]'' @ [CHR 0x0A]\<rparr>)) \<and>
   explain_postprocess (sample_gucs\<lparr>pg_plan_watch_log_format := EXPLAIN_FORMAT_JSON\<rparr>)
     (sample_ExplainState\<lparr>str := ''[ Plan ]'' @ [CHR 0x0A]\<rparr>) =
     Inr (sample_ExplainState\<lparr>str := ''{ Plan }''\<rparr>) \<and>
   c_string ''{ Plan }'' = ''{ Plan }''"
proof -
  let ?g = "sample_gucs\<lparr>pg_plan_watch_log_format := EXPLAIN_FORMAT_JSON\<rparr>"
  let ?es = "sample_ExplainState\<lparr>str := ''[ Plan ]'' @ [CHR 0x0A]\<rparr>"
  have f: "pg_plan_watch_log_format ?g = EXPLAIN_FORMAT_JSON"
    by simp
  have r: "remove_last_line_break (str ?es) = ''[ Plan ]''"
    by (simp add: remove_last_line_break_def)
  have l: "2 \<le> length (remove_last_line_break (str ?es))"
    by (simp add: remove_last_line_break_def)
  have n: "CHR 0x00 \<notin> set (str ?es)"
    by simp
  show ?thesis
    using f l n r fix_json_wraps_in_braces [OF f l] by simp
qed



end
